theory Spec2Isabelle
  imports Complex_Main
begin

section \<open>Billboard compliance rule engine\<close>

text \<open>
  A shallow embedding of \<^verbatim>\<open>app/config/compliance_rules.py\<close> (the rule catalog and
  \<^verbatim>\<open>ComplianceConfig.get_applicable_rules\<close>), of the \<^verbatim>\<open>ViolationType\<close> enumeration of
  \<^verbatim>\<open>app/models.py\<close> and of \<^verbatim>\<open>app/services/compliance_checker.py\<close> (the
  \<^verbatim>\<open>ComplianceChecker\<close>).

  Conventions of the embedding:
  \<^item> Python's \<^verbatim>\<open>float\<close> is the type parameter \<open>'n\<close>; the checks only compare and
    multiply, so they are defined for every type with \<open><\<close> and \<open>*\<close> and nothing is
    assumed about rounding or about the order.
  \<^item> An exception is a value of type \<open>error\<close>; a function that may raise returns
    \<open>error + 'a\<close>, with \<open>Inl\<close> for the exception.
  \<^item> The clock (\<^verbatim>\<open>datetime.utcnow()\<close>) is an explicit argument, one reading for the
    whole call.
  \<^item> The logger is an explicit output: the list of records written during the call.
  \<^item> Strings are byte strings holding ASCII text.
\<close>

subsection \<open>Enumerations\<close>

datatype ZoneType =
  PROHIBITED | RESTRICTED | PERMITTED | HERITAGE | RESIDENTIAL | COMMERCIAL | INDUSTRIAL

fun ZoneType_value :: "ZoneType \<Rightarrow> string" where
  "ZoneType_value PROHIBITED = ''prohibited''"
| "ZoneType_value RESTRICTED = ''restricted''"
| "ZoneType_value PERMITTED = ''permitted''"
| "ZoneType_value HERITAGE = ''heritage''"
| "ZoneType_value RESIDENTIAL = ''residential''"
| "ZoneType_value COMMERCIAL = ''commercial''"
| "ZoneType_value INDUSTRIAL = ''industrial''"

definition ZoneType_members :: "ZoneType list" where
  "ZoneType_members =
     [PROHIBITED, RESTRICTED, PERMITTED, HERITAGE, RESIDENTIAL, COMMERCIAL, INDUSTRIAL]"

datatype BillboardType =
  UNIPOLES | GANTRY | WALL_MOUNTED | ROOFTOP | KIOSK | BUS_SHELTER | DIGITAL | TRADITIONAL

fun BillboardType_value :: "BillboardType \<Rightarrow> string" where
  "BillboardType_value UNIPOLES = ''unipoles''"
| "BillboardType_value GANTRY = ''gantry''"
| "BillboardType_value WALL_MOUNTED = ''wall_mounted''"
| "BillboardType_value ROOFTOP = ''rooftop''"
| "BillboardType_value KIOSK = ''kiosk''"
| "BillboardType_value BUS_SHELTER = ''bus_shelter''"
| "BillboardType_value DIGITAL = ''digital''"
| "BillboardType_value TRADITIONAL = ''traditional''"

definition BillboardType_members :: "BillboardType list" where
  "BillboardType_members =
     [UNIPOLES, GANTRY, WALL_MOUNTED, ROOFTOP, KIOSK, BUS_SHELTER, DIGITAL, TRADITIONAL]"

text \<open>The members of \<^verbatim>\<open>ViolationType\<close> in \<^verbatim>\<open>app/models.py\<close>, all six of them.\<close>

datatype ViolationType =
  UNAUTHORIZED | SIZE_VIOLATION | LOCATION_VIOLATION | STRUCTURAL_ISSUE | CONTENT_VIOLATION
  | EXPIRED_PERMIT

definition ViolationType_names :: "(string \<times> ViolationType) list" where
  "ViolationType_names =
     [(''UNAUTHORIZED'', UNAUTHORIZED),
      (''SIZE_VIOLATION'', SIZE_VIOLATION),
      (''LOCATION_VIOLATION'', LOCATION_VIOLATION),
      (''STRUCTURAL_ISSUE'', STRUCTURAL_ISSUE),
      (''CONTENT_VIOLATION'', CONTENT_VIOLATION),
      (''EXPIRED_PERMIT'', EXPIRED_PERMIT)]"

subsection \<open>Exceptions and the log\<close>

text \<open>
  \<open>ValueError v c\<close>: the call \<^verbatim>\<open>c(v)\<close> of an enumeration class \<open>c\<close> on a string that
  is the value of none of its members. \<open>AttributeError a\<close>: the attribute \<open>a\<close> is read
  from an object that has none of that name. \<open>TypeError\<close>: an operator is applied to
  operands it does not support.
\<close>

datatype error = ValueError string string | AttributeError string | TypeError

text \<open>The one record the checker writes: \<^verbatim>\<open>"Compliance check failed: " + str(e)\<close>.\<close>

datatype log_record = Compliance_check_failed error

definition bind_err :: "error + 'a \<Rightarrow> ('a \<Rightarrow> error + 'b) \<Rightarrow> error + 'b" where
  "bind_err m f = (case m of Inl e \<Rightarrow> Inl e | Inr x \<Rightarrow> f x)"

text \<open>A \<^verbatim>\<open>for\<close> loop over a list whose body updates \<open>s\<close> and may raise.\<close>

fun for_each :: "('a \<Rightarrow> 's \<Rightarrow> error + 's) \<Rightarrow> 'a list \<Rightarrow> 's \<Rightarrow> error + 's" where
  "for_each body [] s = Inr s"
| "for_each body (x # xs) s =
     (case body x s of Inl e \<Rightarrow> Inl e | Inr s' \<Rightarrow> for_each body xs s')"

text \<open>\<^verbatim>\<open>ZoneType(s)\<close>, \<^verbatim>\<open>BillboardType(s)\<close>: the member whose value is \<open>s\<close>.\<close>

definition ZoneType_call :: "string \<Rightarrow> error + ZoneType" where
  "ZoneType_call s =
     (case find (\<lambda>z. ZoneType_value z = s) ZoneType_members of
        Some z \<Rightarrow> Inr z
      | None \<Rightarrow> Inl (ValueError s ''ZoneType''))"

definition BillboardType_call :: "string \<Rightarrow> error + BillboardType" where
  "BillboardType_call s =
     (case find (\<lambda>t. BillboardType_value t = s) BillboardType_members of
        Some t \<Rightarrow> Inr t
      | None \<Rightarrow> Inl (ValueError s ''BillboardType''))"

text \<open>\<^verbatim>\<open>ViolationType.NAME\<close>: attribute access on the enumeration class.\<close>

definition ViolationType_getattr :: "string \<Rightarrow> error + ViolationType" where
  "ViolationType_getattr name =
     (case map_of ViolationType_names name of
        Some v \<Rightarrow> Inr v
      | None \<Rightarrow> Inl (AttributeError name))"

subsection \<open>Strings\<close>

text \<open>\<^verbatim>\<open>str.lower\<close> on ASCII text: the letters A to Z move to a to z.\<close>

definition char_lower :: "char \<Rightarrow> char" where
  "char_lower c =
     (let n = (of_char c :: nat) in if 65 \<le> n \<and> n \<le> 90 then char_of (n + 32) else c)"

definition lower :: "string \<Rightarrow> string" where
  "lower s = map char_lower s"

text \<open>\<^verbatim>\<open>needle in haystack\<close> on strings: \<open>needle\<close> occurs as a contiguous part.\<close>

fun contains_str :: "string \<Rightarrow> string \<Rightarrow> bool" where
  "contains_str needle [] = (needle = [])"
| "contains_str needle (c # cs) =
     (take (length needle) (c # cs) = needle \<or> contains_str needle cs)"

text \<open>\<^verbatim>\<open>str(n)\<close> of an integer.\<close>

fun str_nat :: "nat \<Rightarrow> string" where
  "str_nat n =
     (if n < 10 then [char_of (48 + n)] else str_nat (n div 10) @ [char_of (48 + n mod 10)])"

definition str_int :: "int \<Rightarrow> string" where
  "str_int i = (if i < 0 then CHR ''-'' # str_nat (nat (- i)) else str_nat (nat i))"

subsection \<open>The rule catalog\<close>

record compliance_rule =
  rule_id :: string
  description :: string
  severity :: string
  applicable_zones :: "ZoneType list"
  applicable_billboard_types :: "BillboardType list"

record 'n size_restriction = compliance_rule +
  max_width_meters :: 'n
  max_height_meters :: 'n
  max_area_sqm :: 'n
  min_ground_clearance :: 'n

record 'n location_restriction = compliance_rule +
  min_distance_from_intersection :: 'n
  min_distance_from_pedestrian_path :: 'n
  min_distance_from_road :: 'n
  prohibited_nearby_places :: "(string \<times> 'n) list"

record content_restriction = compliance_rule +
  prohibited_content :: "string list"
  required_elements :: "string list"

record 'n safety_requirement = compliance_rule +
  requires_structural_certificate :: bool
  max_wind_speed_rating :: "'n option"
  required_illumination :: "string option"
  fire_safety_requirements :: "string list"

record administrative_requirement = compliance_rule +
  requires_permit :: bool
  permit_renewal_years :: int
  required_insurance :: bool
  tax_requirements :: "string list"

text \<open>
  \<open>size_restrictions\<close> is a \<^verbatim>\<open>Dict[ZoneType, SizeRestriction]\<close>: the entries in
  insertion order. A Python dict holds each key once; \<open>dict_keys_distinct\<close> says so.
\<close>

record 'n compliance_config =
  jurisdiction :: string
  effective_date :: string
  size_restrictions :: "(ZoneType \<times> 'n size_restriction) list"
  location_restrictions :: "'n location_restriction list"
  content_restrictions :: "content_restriction list"
  safety_requirements :: "'n safety_requirement list"
  administrative_requirements :: "administrative_requirement list"

definition dict_keys_distinct :: "('k \<times> 'v) list \<Rightarrow> bool" where
  "dict_keys_distinct d = distinct (map fst d)"

text \<open>The dictionary \<^verbatim>\<open>get_applicable_rules\<close> returns, one field per key.\<close>

record 'n applicable_rules =
  size_rules :: "'n size_restriction list"
  location_rules :: "'n location_restriction list"
  content_rules :: "content_restriction list"
  safety_rules :: "'n safety_requirement list"
  administrative_rules :: "administrative_requirement list"

definition is_applicable ::
  "ZoneType \<Rightarrow> BillboardType \<Rightarrow> 'a compliance_rule_scheme \<Rightarrow> bool" where
  "is_applicable zone billboard_type rule =
     (zone \<in> set (applicable_zones rule) \<and>
      billboard_type \<in> set (applicable_billboard_types rule))"

definition get_applicable_rules ::
  "'n compliance_config \<Rightarrow> ZoneType \<Rightarrow> BillboardType \<Rightarrow> 'n applicable_rules" where
  "get_applicable_rules cfg zone billboard_type =
     \<lparr>size_rules = filter (is_applicable zone billboard_type) (map snd (size_restrictions cfg)),
      location_rules = filter (is_applicable zone billboard_type) (location_restrictions cfg),
      content_rules = filter (is_applicable zone billboard_type) (content_restrictions cfg),
      safety_rules = filter (is_applicable zone billboard_type) (safety_requirements cfg),
      administrative_rules =
        filter (is_applicable zone billboard_type) (administrative_requirements cfg)\<rparr>"

text \<open>\<^verbatim>\<open>load_default_config\<close>: the example configuration of the source.\<close>

definition load_default_config :: "'n::field compliance_config" where
  "load_default_config =
     \<lparr>jurisdiction = ''Example City Municipal Corporation'',
      effective_date = ''2023-01-01'',
      size_restrictions =
        [(COMMERCIAL,
          \<lparr>rule_id = ''SIZE-COMM-001'',
           description = ''Maximum size for commercial zone billboards'',
           severity = ''high'',
           applicable_zones = [COMMERCIAL],
           applicable_billboard_types = [UNIPOLES, GANTRY],
           max_width_meters = 12,
           max_height_meters = 4,
           max_area_sqm = 48,
           min_ground_clearance = 5 / 2\<rparr>)],
      location_restrictions =
        [\<lparr>rule_id = ''LOC-001'',
          description = ''Minimum distance from intersections'',
          severity = ''critical'',
          applicable_zones = [PERMITTED, COMMERCIAL],
          applicable_billboard_types = [UNIPOLES, GANTRY],
          min_distance_from_intersection = 30,
          min_distance_from_pedestrian_path = 1,
          min_distance_from_road = 1,
          prohibited_nearby_places =
            [(''schools'', 100), (''hospitals'', 100), (''religious_places'', 50),
             (''heritage_sites'', 100)]\<rparr>],
      content_restrictions =
        [\<lparr>rule_id = ''CONT-001'',
          description = ''Prohibited content'',
          severity = ''high'',
          applicable_zones = ZoneType_members,
          applicable_billboard_types = BillboardType_members,
          prohibited_content =
            [''obscene'', ''defamatory'', ''inciting_violence'', ''hate_speech'',
             ''unauthorized_political''],
          required_elements = [''permit_number'', ''owner_contact'', ''validity_date'']\<rparr>],
      safety_requirements =
        [\<lparr>rule_id = ''SAFE-001'',
          description = ''Structural safety requirements'',
          severity = ''critical'',
          applicable_zones = filter (\<lambda>z. z \<noteq> PROHIBITED) ZoneType_members,
          applicable_billboard_types = BillboardType_members,
          requires_structural_certificate = True,
          max_wind_speed_rating = Some 120,
          required_illumination = None,
          fire_safety_requirements = []\<rparr>],
      administrative_requirements =
        [\<lparr>rule_id = ''ADMIN-001'',
          description = ''Permit requirements'',
          severity = ''high'',
          applicable_zones = filter (\<lambda>z. z \<noteq> PROHIBITED) ZoneType_members,
          applicable_billboard_types = BillboardType_members,
          requires_permit = True,
          permit_renewal_years = 1,
          required_insurance = True,
          tax_requirements = []\<rparr>]\<rparr>"

subsection \<open>The inputs of an evaluation\<close>

text \<open>
  The billboard as the checker reads it: the attributes \<^verbatim>\<open>id\<close>, \<^verbatim>\<open>zone_type\<close>,
  \<^verbatim>\<open>billboard_type\<close>, \<^verbatim>\<open>width_meters\<close>, \<^verbatim>\<open>height_meters\<close>,
  \<^verbatim>\<open>structural_certificate_id\<close>, \<^verbatim>\<open>permit_number\<close> and \<^verbatim>\<open>permit_expiry_date\<close>.
  The two identifiers are tested for truth (\<^verbatim>\<open>not billboard.permit_number\<close>), so they
  may be \<^verbatim>\<open>None\<close>. \<open>permit_expiry_date\<close> is guarded by \<^verbatim>\<open>hasattr\<close>: \<open>None\<close> here
  means that the object has no such attribute, \<open>Some d\<close> that it has one, holding the
  date \<open>d\<close>. A date is its day number (\<^verbatim>\<open>date.toordinal()\<close>).
  The class \<^verbatim>\<open>Billboard\<close> of \<^verbatim>\<open>app/models.py\<close> declares \<^verbatim>\<open>id\<close> and \<^verbatim>\<open>permit_number\<close> only;
  the record is the object that the attribute reads of the checker presuppose.
\<close>

type_synonym date = int

record datetime =
  dt_date :: date
  dt_microsecond_of_day :: nat

record 'n billboard =
  id_num :: int
  zone_type :: string
  billboard_type :: string
  width_meters :: 'n
  height_meters :: 'n
  structural_certificate_id :: "string option"
  permit_number :: "string option"
  permit_expiry_date :: "date option"

text \<open>Truth value of an optional string: \<^verbatim>\<open>None\<close> and \<^verbatim>\<open>""\<close> are false.\<close>

definition truthy :: "string option \<Rightarrow> bool" where
  "truthy v = (case v of None \<Rightarrow> False | Some s \<Rightarrow> s \<noteq> [])"

text \<open>
  The values \<^verbatim>\<open>report_data\<close> may hold: \<^verbatim>\<open>None\<close>, a number, a string, a list (or
  set) and a dictionary with string keys, entries in order.
\<close>

datatype 'n pyval =
  PNone | PNum 'n | PStr string | PList "'n pyval list" | PDict "(string \<times> 'n pyval) list"

type_synonym 'n report_data = "(string \<times> 'n pyval) list"

text \<open>\<^verbatim>\<open>obj.get(key)\<close>: only a dictionary has the method.\<close>

definition py_get :: "'n pyval \<Rightarrow> string \<Rightarrow> error + 'n pyval option" where
  "py_get obj key =
     (case obj of PDict kvs \<Rightarrow> Inr (map_of kvs key) | _ \<Rightarrow> Inl (AttributeError ''get''))"

text \<open>\<^verbatim>\<open>obj < m\<close> for a float \<open>m\<close>: only a number can be compared with it.\<close>

definition py_less :: "'n::ord pyval \<Rightarrow> 'n \<Rightarrow> error + bool" where
  "py_less obj m = (case obj of PNum x \<Rightarrow> Inr (x < m) | _ \<Rightarrow> Inl TypeError)"

text \<open>
  \<^verbatim>\<open>key in obj\<close> for a string \<open>key\<close>: a key of a dictionary, an element of a list,
  a part of a string; \<^verbatim>\<open>None\<close> and numbers are not containers.
\<close>

definition py_in :: "string \<Rightarrow> 'n pyval \<Rightarrow> error + bool" where
  "py_in key obj =
     (case obj of
        PDict kvs \<Rightarrow> Inr (key \<in> set (map fst kvs))
      | PList xs \<Rightarrow> Inr (PStr key \<in> set xs)
      | PStr s \<Rightarrow> Inr (contains_str key s)
      | _ \<Rightarrow> Inl TypeError)"

subsection \<open>Violations\<close>

record violation =
  v_rule_id :: string
  v_type :: ViolationType
  v_severity :: string
  v_message :: string
  v_details :: "(string \<times> string) list"

record compliance_result =
  is_compliant :: bool
  violations :: "violation list"
  checked_at :: datetime
  billboard_id :: string

text \<open>A rule object of any of the five classes; \<open>class_name\<close> is \<^verbatim>\<open>rule.__class__.__name__\<close>.\<close>

datatype 'n rule =
  SizeRestriction "'n size_restriction"
| LocationRestriction "'n location_restriction"
| ContentRestriction content_restriction
| SafetyRequirement "'n safety_requirement"
| AdministrativeRequirement administrative_requirement

fun class_name :: "'n rule \<Rightarrow> string" where
  "class_name (SizeRestriction r) = ''SizeRestriction''"
| "class_name (LocationRestriction r) = ''LocationRestriction''"
| "class_name (ContentRestriction r) = ''ContentRestriction''"
| "class_name (SafetyRequirement r) = ''SafetyRequirement''"
| "class_name (AdministrativeRequirement r) = ''AdministrativeRequirement''"

fun rule_rule_id :: "'n rule \<Rightarrow> string" where
  "rule_rule_id (SizeRestriction r) = rule_id r"
| "rule_rule_id (LocationRestriction r) = rule_id r"
| "rule_rule_id (ContentRestriction r) = rule_id r"
| "rule_rule_id (SafetyRequirement r) = rule_id r"
| "rule_rule_id (AdministrativeRequirement r) = rule_id r"

fun rule_severity :: "'n rule \<Rightarrow> string" where
  "rule_severity (SizeRestriction r) = severity r"
| "rule_severity (LocationRestriction r) = severity r"
| "rule_severity (ContentRestriction r) = severity r"
| "rule_severity (SafetyRequirement r) = severity r"
| "rule_severity (AdministrativeRequirement r) = severity r"

fun rule_description :: "'n rule \<Rightarrow> string" where
  "rule_description (SizeRestriction r) = description r"
| "rule_description (LocationRestriction r) = description r"
| "rule_description (ContentRestriction r) = description r"
| "rule_description (SafetyRequirement r) = description r"
| "rule_description (AdministrativeRequirement r) = description r"

subsection \<open>The checker\<close>

definition map_rule_to_violation_type :: "'n rule \<Rightarrow> error + ViolationType" where
  "map_rule_to_violation_type rule =
     (let rule_name = lower (class_name rule) in
      if contains_str ''size'' rule_name then ViolationType_getattr ''SIZE_VIOLATION''
      else if contains_str ''location'' rule_name then ViolationType_getattr ''LOCATION_VIOLATION''
      else if contains_str ''content'' rule_name then ViolationType_getattr ''CONTENT_VIOLATION''
      else if contains_str ''safety'' rule_name then ViolationType_getattr ''SAFETY_VIOLATION''
      else ViolationType_getattr ''ADMINISTRATIVE_VIOLATION'')"

text \<open>
  The dictionary \<^verbatim>\<open>_create_violation\<close> returns, \<open>t\<close> being the value of
  \<^verbatim>\<open>self._map_rule_to_violation_type(rule)\<close>.
\<close>

definition violation_dict :: "'n rule \<Rightarrow> ViolationType \<Rightarrow> string \<Rightarrow> violation" where
  "violation_dict rule t message =
     \<lparr>v_rule_id = rule_rule_id rule,
      v_type = t,
      v_severity = rule_severity rule,
      v_message = message,
      v_details = [(''rule_description'', rule_description rule)]\<rparr>"

definition create_violation :: "'n rule \<Rightarrow> string \<Rightarrow> error + violation" where
  "create_violation rule message =
     bind_err (map_rule_to_violation_type rule) (\<lambda>t. Inr (violation_dict rule t message))"

text \<open>\<^verbatim>\<open>violations.append(self._create_violation(rule, message))\<close>\<close>

definition append_violation ::
  "'n rule \<Rightarrow> string \<Rightarrow> violation list \<Rightarrow> error + violation list" where
  "append_violation rule message vs =
     bind_err (create_violation rule message) (\<lambda>v. Inr (vs @ [v]))"

text \<open>The body of the loop of \<^verbatim>\<open>_check_size\<close>: three tests in sequence.\<close>

definition check_size_rule ::
  "'n::{ord,times} billboard \<Rightarrow> 'n size_restriction \<Rightarrow> violation list \<Rightarrow> error + violation list"
  where
  "check_size_rule b rule vs =
     bind_err
       (if width_meters b > max_width_meters rule
        then append_violation (SizeRestriction rule) ''Width exceeds maximum allowed'' vs
        else Inr vs) (\<lambda>vs.
     bind_err
       (if height_meters b > max_height_meters rule
        then append_violation (SizeRestriction rule) ''Height exceeds maximum allowed'' vs
        else Inr vs) (\<lambda>vs.
       (if width_meters b * height_meters b > max_area_sqm rule
        then append_violation (SizeRestriction rule) ''Area exceeds maximum allowed'' vs
        else Inr vs)))"

definition check_size ::
  "'n::{ord,times} billboard \<Rightarrow> 'n size_restriction list \<Rightarrow> error + violation list" where
  "check_size b rules = for_each (check_size_rule b) rules []"

text \<open>
  The body of the loop of \<^verbatim>\<open>_check_location\<close>. A missing distance defaults to
  \<^verbatim>\<open>float('inf')\<close>, which is below no minimum.
\<close>

definition check_location_rule ::
  "'n::ord report_data \<Rightarrow> 'n location_restriction \<Rightarrow> violation list \<Rightarrow> error + violation list"
  where
  "check_location_rule report_data rule vs =
     (case map_of report_data ''location'' of
        None \<Rightarrow> Inr vs
      | Some loc \<Rightarrow>
          bind_err (py_get loc ''distance_from_intersection'') (\<lambda>d.
            case d of
              None \<Rightarrow> Inr vs
            | Some x \<Rightarrow>
                bind_err (py_less x (min_distance_from_intersection rule)) (\<lambda>below.
                  if below
                  then append_violation (LocationRestriction rule) ''Too close to intersection'' vs
                  else Inr vs)))"

definition check_location ::
  "'n::ord billboard \<Rightarrow> 'n report_data \<Rightarrow> 'n location_restriction list \<Rightarrow>
     error + violation list" where
  "check_location b report_data rules = for_each (check_location_rule report_data) rules []"

text \<open>
  The body of the inner loop of \<^verbatim>\<open>_check_content\<close>, over the prohibited tags of one
  rule; \<open>content\<close> is \<^verbatim>\<open>report_data['content_analysis']\<close>. A missing
  \<^verbatim>\<open>detected_content\<close> defaults to the empty dictionary.
\<close>

definition check_content_tag ::
  "'n pyval \<Rightarrow> content_restriction \<Rightarrow> string \<Rightarrow> violation list \<Rightarrow> error + violation list"
  where
  "check_content_tag content rule prohibited vs =
     bind_err (py_get content ''detected_content'') (\<lambda>d.
     bind_err (py_in prohibited (case d of None \<Rightarrow> PDict [] | Some x \<Rightarrow> x)) (\<lambda>found.
       if found
       then append_violation (ContentRestriction rule :: 'n rule)
              (''Prohibited content: '' @ prohibited) vs
       else Inr vs))"

definition check_content_rule ::
  "'n pyval \<Rightarrow> content_restriction \<Rightarrow> violation list \<Rightarrow> error + violation list" where
  "check_content_rule content rule vs =
     for_each (check_content_tag content rule) (prohibited_content rule) vs"

definition check_content ::
  "'n billboard \<Rightarrow> 'n report_data \<Rightarrow> content_restriction list \<Rightarrow> error + violation list"
  where
  "check_content b report_data rules =
     (case map_of report_data ''content_analysis'' of
        None \<Rightarrow> Inr []
      | Some content \<Rightarrow> for_each (check_content_rule content) rules [])"

definition check_safety_rule ::
  "'n billboard \<Rightarrow> 'n safety_requirement \<Rightarrow> violation list \<Rightarrow> error + violation list" where
  "check_safety_rule b rule vs =
     (if requires_structural_certificate rule \<and> \<not> truthy (structural_certificate_id b)
      then append_violation (SafetyRequirement rule) ''Missing structural certificate'' vs
      else Inr vs)"

definition check_safety ::
  "'n billboard \<Rightarrow> 'n safety_requirement list \<Rightarrow> error + violation list" where
  "check_safety b rules = for_each (check_safety_rule b) rules []"

text \<open>
  The body of the loop of \<^verbatim>\<open>_check_administrative\<close>; \<open>now\<close> is the reading of
  \<^verbatim>\<open>datetime.utcnow()\<close>.
\<close>

definition check_administrative_rule ::
  "'n billboard \<Rightarrow> datetime \<Rightarrow> administrative_requirement \<Rightarrow> violation list \<Rightarrow>
     error + violation list" where
  "check_administrative_rule b now rule vs =
     bind_err
       (if requires_permit rule \<and> \<not> truthy (permit_number b)
        then append_violation (AdministrativeRequirement rule :: 'n rule) ''Missing permit'' vs
        else Inr vs) (\<lambda>vs.
       (case permit_expiry_date b of
          None \<Rightarrow> Inr vs
        | Some d \<Rightarrow>
            if d < dt_date now
            then append_violation (AdministrativeRequirement rule :: 'n rule) ''Permit expired'' vs
            else Inr vs))"

definition check_administrative ::
  "'n billboard \<Rightarrow> datetime \<Rightarrow> administrative_requirement list \<Rightarrow> error + violation list"
  where
  "check_administrative b now rules = for_each (check_administrative_rule b now) rules []"

text \<open>The body of the \<^verbatim>\<open>try\<close> block of \<^verbatim>\<open>check_billboard_compliance\<close>.\<close>

definition check_billboard_compliance_body ::
  "'n::{ord,times} compliance_config \<Rightarrow> 'n billboard \<Rightarrow> 'n report_data \<Rightarrow> datetime \<Rightarrow>
     error + compliance_result" where
  "check_billboard_compliance_body cfg b report_data now =
     bind_err (ZoneType_call (lower (zone_type b))) (\<lambda>zone.
     bind_err (BillboardType_call (lower (billboard_type b))) (\<lambda>btype.
       let rules = get_applicable_rules cfg zone btype in
       bind_err (check_size b (size_rules rules)) (\<lambda>v1.
       bind_err (check_location b report_data (location_rules rules)) (\<lambda>v2.
       bind_err (check_content b report_data (content_rules rules)) (\<lambda>v3.
       bind_err (check_safety b (safety_rules rules)) (\<lambda>v4.
       bind_err (check_administrative b now (administrative_rules rules)) (\<lambda>v5.
         let vs = v1 @ v2 @ v3 @ v4 @ v5 in
         Inr \<lparr>is_compliant = (length vs = 0),
              violations = vs,
              checked_at = now,
              billboard_id = str_int (id_num b)\<rparr>)))))))"

text \<open>
  \<^verbatim>\<open>check_billboard_compliance\<close>: the \<^verbatim>\<open>except\<close> clause writes the exception to the
  log and raises it again. The result is the log of the call and its outcome.
\<close>

definition check_billboard_compliance ::
  "'n::{ord,times} compliance_config \<Rightarrow> 'n billboard \<Rightarrow> 'n report_data \<Rightarrow> datetime \<Rightarrow>
     log_record list \<times> (error + compliance_result)" where
  "check_billboard_compliance cfg b report_data now =
     (case check_billboard_compliance_body cfg b report_data now of
        Inl e \<Rightarrow> ([Compliance_check_failed e], Inl e)
      | Inr r \<Rightarrow> ([], Inr r))"

subsection \<open>Example inputs\<close>

text \<open>
  Billboards, report data, clock readings and a configuration on which the properties
  below are evaluated. The dates are day numbers: 738886 is 2024-01-01, 738966 is
  2024-03-21, 739067 is 2024-06-30 and 739068 is 2024-07-01.
\<close>

definition kiosk_billboard :: "rat billboard" where
  "kiosk_billboard =
     \<lparr>id_num = 7, zone_type = ''COMMERCIAL'', billboard_type = ''Kiosk'',
      width_meters = 2, height_meters = 2,
      structural_certificate_id = Some ''SC-17'', permit_number = Some ''P-2024-001'',
      permit_expiry_date = Some 739067\<rparr>"

definition unipole_billboard :: "rat billboard" where
  "unipole_billboard =
     \<lparr>id_num = 8, zone_type = ''commercial'', billboard_type = ''unipoles'',
      width_meters = 15, height_meters = 3,
      structural_certificate_id = Some ''SC-18'', permit_number = None,
      permit_expiry_date = None\<rparr>"

definition certificate_missing_billboard :: "rat billboard" where
  "certificate_missing_billboard =
     \<lparr>id_num = 9, zone_type = ''Industrial'', billboard_type = ''rooftop'',
      width_meters = 6, height_meters = 3,
      structural_certificate_id = None, permit_number = Some ''P-2024-002'',
      permit_expiry_date = None\<rparr>"

definition example_report_data :: "rat report_data" where
  "example_report_data =
     [(''location'', PDict [(''distance_from_intersection'', PNum 10)]),
      (''content_analysis'', PDict [(''detected_content'', PList [PStr ''hate_speech''])])]"

definition new_year_2024 :: datetime where
  "new_year_2024 = \<lparr>dt_date = 738886, dt_microsecond_of_day = 0\<rparr>"

definition spring_2024 :: datetime where
  "spring_2024 = \<lparr>dt_date = 738966, dt_microsecond_of_day = 43200000000\<rparr>"

definition july_2024 :: datetime where
  "july_2024 = \<lparr>dt_date = 739068, dt_microsecond_of_day = 0\<rparr>"

text \<open>
  A configuration whose size mapping holds, under the key \<open>INDUSTRIAL\<close>, a rule that
  also applies in the commercial zone.
\<close>

definition overlapping_size_config :: "rat compliance_config" where
  "overlapping_size_config =
     \<lparr>jurisdiction = ''Example'', effective_date = ''2024-01-01'',
      size_restrictions =
        [(COMMERCIAL,
          \<lparr>rule_id = ''SIZE-COMM-001'', description = ''Commercial zone size'',
           severity = ''high'', applicable_zones = [COMMERCIAL],
           applicable_billboard_types = [UNIPOLES],
           max_width_meters = 12, max_height_meters = 4, max_area_sqm = 48,
           min_ground_clearance = 5 / 2\<rparr>),
         (INDUSTRIAL,
          \<lparr>rule_id = ''SIZE-IND-001'', description = ''Industrial zone size'',
           severity = ''high'', applicable_zones = [INDUSTRIAL, COMMERCIAL],
           applicable_billboard_types = [UNIPOLES],
           max_width_meters = 20, max_height_meters = 6, max_area_sqm = 120,
           min_ground_clearance = 5 / 2\<rparr>)],
      location_restrictions = [], content_restrictions = [], safety_requirements = [],
      administrative_requirements = []\<rparr>"

section \<open>Properties\<close>

subsection \<open>Auxiliary facts\<close>

lemma lower_class_names:
  "lower ''SizeRestriction'' = ''sizerestriction''"
  "lower ''LocationRestriction'' = ''locationrestriction''"
  "lower ''ContentRestriction'' = ''contentrestriction''"
  "lower ''SafetyRequirement'' = ''safetyrequirement''"
  "lower ''AdministrativeRequirement'' = ''administrativerequirement''"
  by code_simp+

lemma violation_type_of_size:
  "map_rule_to_violation_type (SizeRestriction r) = Inr SIZE_VIOLATION"
  by (simp add: map_rule_to_violation_type_def lower_class_names ViolationType_getattr_def
      ViolationType_names_def)

lemma violation_type_of_location:
  "map_rule_to_violation_type (LocationRestriction r) = Inr LOCATION_VIOLATION"
  by (simp add: map_rule_to_violation_type_def lower_class_names ViolationType_getattr_def
      ViolationType_names_def)

lemma violation_type_of_content:
  "map_rule_to_violation_type (ContentRestriction r) = Inr CONTENT_VIOLATION"
  by (simp add: map_rule_to_violation_type_def lower_class_names ViolationType_getattr_def
      ViolationType_names_def)

lemma violation_type_of_safety:
  "map_rule_to_violation_type (SafetyRequirement r) = Inl (AttributeError ''SAFETY_VIOLATION'')"
  by (simp add: map_rule_to_violation_type_def lower_class_names ViolationType_getattr_def
      ViolationType_names_def)

lemma violation_type_of_administrative:
  "map_rule_to_violation_type (AdministrativeRequirement r) =
     Inl (AttributeError ''ADMINISTRATIVE_VIOLATION'')"
  by (simp add: map_rule_to_violation_type_def lower_class_names ViolationType_getattr_def
      ViolationType_names_def)

lemma append_violation_size:
  "append_violation (SizeRestriction r) m vs =
     Inr (vs @ [violation_dict (SizeRestriction r) SIZE_VIOLATION m])"
  by (simp add: append_violation_def create_violation_def bind_err_def violation_type_of_size)

lemma append_violation_location:
  "append_violation (LocationRestriction r) m vs =
     Inr (vs @ [violation_dict (LocationRestriction r) LOCATION_VIOLATION m])"
  by (simp add: append_violation_def create_violation_def bind_err_def
      violation_type_of_location)

lemma append_violation_content:
  "append_violation (ContentRestriction r :: 'n rule) m vs =
     Inr (vs @ [violation_dict (ContentRestriction r :: 'n rule) CONTENT_VIOLATION m])"
  by (simp add: append_violation_def create_violation_def bind_err_def
      violation_type_of_content)

lemma append_violation_safety:
  "append_violation (SafetyRequirement r) m vs = Inl (AttributeError ''SAFETY_VIOLATION'')"
  by (simp add: append_violation_def create_violation_def bind_err_def
      violation_type_of_safety)

lemma append_violation_administrative:
  "append_violation (AdministrativeRequirement r) m vs =
     Inl (AttributeError ''ADMINISTRATIVE_VIOLATION'')"
  by (simp add: append_violation_def create_violation_def bind_err_def
      violation_type_of_administrative)

lemma for_each_appends:
  "(\<And>x s. x \<in> set xs \<Longrightarrow> body x s = Inr (s @ g x)) \<Longrightarrow>
     for_each body xs s = Inr (s @ concat (map g xs))"
  by (induction xs arbitrary: s) simp_all

lemma check_size_rule_appends:
  "check_size_rule b rule vs =
     Inr (vs @ map (violation_dict (SizeRestriction rule) SIZE_VIOLATION)
       ((if width_meters b > max_width_meters rule
         then [''Width exceeds maximum allowed''] else []) @
        (if height_meters b > max_height_meters rule
         then [''Height exceeds maximum allowed''] else []) @
        (if width_meters b * height_meters b > max_area_sqm rule
         then [''Area exceeds maximum allowed''] else [])))"
  by (simp add: check_size_rule_def bind_err_def append_violation_size)

lemma check_size_all:
  "check_size b rules =
     Inr (concat (map (\<lambda>rule. map (violation_dict (SizeRestriction rule) SIZE_VIOLATION)
       ((if width_meters b > max_width_meters rule
         then [''Width exceeds maximum allowed''] else []) @
        (if height_meters b > max_height_meters rule
         then [''Height exceeds maximum allowed''] else []) @
        (if width_meters b * height_meters b > max_area_sqm rule
         then [''Area exceeds maximum allowed''] else []))) rules))"
  unfolding check_size_def
  using for_each_appends [where body = "check_size_rule b" and s = "[]" and xs = rules,
      OF check_size_rule_appends]
  by simp


lemma check_location_rule_no_location:
  "map_of report_data ''location'' = None \<Longrightarrow> check_location_rule report_data rule vs = Inr vs"
  by (simp add: check_location_rule_def)

lemma check_location_rule_measured:
  "map_of report_data ''location'' = Some (PDict loc) \<Longrightarrow>
   map_of loc ''distance_from_intersection'' = Some (PNum d) \<Longrightarrow>
     check_location_rule report_data rule vs =
       Inr (vs @ (if d < min_distance_from_intersection rule
                  then [violation_dict (LocationRestriction rule) LOCATION_VIOLATION
                          ''Too close to intersection'']
                  else []))"
  by (simp add: check_location_rule_def py_get_def py_less_def bind_err_def
      append_violation_location)

lemma concat_map_if_filter:
  "concat (map (\<lambda>x. if P x then [f x] else []) xs) = map f (filter P xs)"
  by (induction xs) simp_all

lemma check_location_rule_unmeasured:
  "map_of report_data ''location'' = Some (PDict loc) \<Longrightarrow>
   map_of loc ''distance_from_intersection'' = None \<Longrightarrow>
     check_location_rule report_data rule vs = Inr vs"
  by (simp add: check_location_rule_def py_get_def bind_err_def)

lemma check_location_unmeasured:
  assumes "map_of report_data ''location'' = Some (PDict loc)"
    and "map_of loc ''distance_from_intersection'' = None"
  shows "check_location b report_data rules = Inr []"
proof -
  have "for_each (check_location_rule report_data) rules [] =
      Inr ([] @ concat (map (\<lambda>rule. []) rules))"
    using assms by (intro for_each_appends) (simp add: check_location_rule_unmeasured)
  then show ?thesis by (simp add: check_location_def)
qed

lemma check_content_tag_listed:
  "py_get content ''detected_content'' = Inr (Some (PList ds)) \<Longrightarrow>
     check_content_tag content rule p vs =
       Inr (vs @ (if PStr p \<in> set ds
                  then [violation_dict (ContentRestriction rule :: 'n rule) CONTENT_VIOLATION
                          (''Prohibited content: '' @ p)]
                  else []))"
  for content :: "'n pyval"
  by (simp add: check_content_tag_def py_in_def bind_err_def append_violation_content)

lemma check_content_rule_listed:
  fixes content :: "'n pyval"
  assumes "py_get content ''detected_content'' = Inr (Some (PList ds))"
  shows "check_content_rule content rule vs =
       Inr (vs @ map (\<lambda>p. violation_dict (ContentRestriction rule :: 'n rule) CONTENT_VIOLATION
                          (''Prohibited content: '' @ p))
                   (filter (\<lambda>p. PStr p \<in> set ds) (prohibited_content rule)))"
proof -
  have "for_each (check_content_tag content rule) (prohibited_content rule) vs =
      Inr (vs @ concat (map (\<lambda>p. if PStr p \<in> set ds
                  then [violation_dict (ContentRestriction rule :: 'n rule) CONTENT_VIOLATION
                          (''Prohibited content: '' @ p)]
                  else []) (prohibited_content rule)))"
    using assms by (intro for_each_appends) (simp add: check_content_tag_listed)
  then show ?thesis
    by (simp add: check_content_rule_def concat_map_if_filter)
qed

lemma check_content_listed:
  fixes b :: "'n billboard"
  assumes "map_of report_data ''content_analysis'' = Some (PDict ca)"
    and "map_of ca ''detected_content'' = Some (PList ds)"
  shows "check_content b report_data rules =
     Inr (concat (map (\<lambda>rule.
       map (\<lambda>p. violation_dict (ContentRestriction rule :: 'n rule) CONTENT_VIOLATION
                  (''Prohibited content: '' @ p))
         (filter (\<lambda>p. PStr p \<in> set ds) (prohibited_content rule))) rules))"
proof -
  have g: "py_get (PDict ca) ''detected_content'' = Inr (Some (PList ds))"
    using assms(2) by (simp add: py_get_def)
  have "for_each (check_content_rule (PDict ca)) rules [] =
     Inr ([] @ concat (map (\<lambda>rule.
       map (\<lambda>p. violation_dict (ContentRestriction rule :: 'n rule) CONTENT_VIOLATION
                  (''Prohibited content: '' @ p))
         (filter (\<lambda>p. PStr p \<in> set ds) (prohibited_content rule))) rules))"
    by (intro for_each_appends) (simp add: check_content_rule_listed [OF g])
  then show ?thesis
    using assms(1) by (simp add: check_content_def)
qed

lemma for_each_raise_or_keep:
  "(\<And>x s. x \<in> set xs \<Longrightarrow> body x s = (if P x then Inl e else Inr s)) \<Longrightarrow>
     for_each body xs s = (if \<exists>x\<in>set xs. P x then Inl e else Inr s)"
  by (induction xs arbitrary: s) simp_all

lemma check_safety_outcome:
  "check_safety b rules =
     (if \<exists>rule\<in>set rules.
           requires_structural_certificate rule \<and> \<not> truthy (structural_certificate_id b)
      then Inl (AttributeError ''SAFETY_VIOLATION'') else Inr [])"
  unfolding check_safety_def
  by (rule for_each_raise_or_keep) (simp add: check_safety_rule_def append_violation_safety)

lemma check_administrative_rule_outcome:
  "check_administrative_rule b now rule vs =
     (if requires_permit rule \<and> \<not> truthy (permit_number b) \<or>
         (case permit_expiry_date b of None \<Rightarrow> False | Some d \<Rightarrow> d < dt_date now)
      then Inl (AttributeError ''ADMINISTRATIVE_VIOLATION'') else Inr vs)"
  by (simp add: check_administrative_rule_def bind_err_def append_violation_administrative
      split: option.splits)

lemma check_administrative_outcome:
  "check_administrative b now rules =
     (if \<exists>rule\<in>set rules.
           requires_permit rule \<and> \<not> truthy (permit_number b) \<or>
           (case permit_expiry_date b of None \<Rightarrow> False | Some d \<Rightarrow> d < dt_date now)
      then Inl (AttributeError ''ADMINISTRATIVE_VIOLATION'') else Inr [])"
  unfolding check_administrative_def
  by (rule for_each_raise_or_keep) (simp add: check_administrative_rule_outcome)

lemma ZoneType_call_not_member:
  "s \<notin> set (map ZoneType_value ZoneType_members) \<Longrightarrow>
     ZoneType_call s = Inl (ValueError s ''ZoneType'')"
  by (auto simp: ZoneType_call_def find_None_iff split: option.splits)

lemma BillboardType_call_not_member:
  "s \<notin> set (map BillboardType_value BillboardType_members) \<Longrightarrow>
     BillboardType_call s = Inl (ValueError s ''BillboardType'')"
  by (auto simp: BillboardType_call_def find_None_iff split: option.splits)

lemma ZoneType_call_raises:
  "ZoneType_call s = Inl e \<Longrightarrow> e = ValueError s ''ZoneType''"
  by (auto simp: ZoneType_call_def split: option.splits)

lemma body_zone_raises:
  "ZoneType_call (lower (zone_type b)) = Inl e \<Longrightarrow>
     check_billboard_compliance_body cfg b rd now = Inl e"
  by (simp add: check_billboard_compliance_body_def bind_err_def)

lemma body_type_raises:
  "ZoneType_call (lower (zone_type b)) = Inr z \<Longrightarrow>
   BillboardType_call (lower (billboard_type b)) = Inl e \<Longrightarrow>
     check_billboard_compliance_body cfg b rd now = Inl e"
  by (simp add: check_billboard_compliance_body_def bind_err_def)

lemma compliance_of_body_raise:
  "check_billboard_compliance_body cfg b rd now = Inl e \<Longrightarrow>
     check_billboard_compliance cfg b rd now = ([Compliance_check_failed e], Inl e)"
  by (simp add: check_billboard_compliance_def)

lemma body_with_rules:
  "ZoneType_call (lower (zone_type b)) = Inr zone \<Longrightarrow>
   BillboardType_call (lower (billboard_type b)) = Inr btype \<Longrightarrow>
     check_billboard_compliance_body cfg b rd now =
       (let rules = get_applicable_rules cfg zone btype in
        bind_err (check_size b (size_rules rules)) (\<lambda>v1.
        bind_err (check_location b rd (location_rules rules)) (\<lambda>v2.
        bind_err (check_content b rd (content_rules rules)) (\<lambda>v3.
        bind_err (check_safety b (safety_rules rules)) (\<lambda>v4.
        bind_err (check_administrative b now (administrative_rules rules)) (\<lambda>v5.
          let vs = v1 @ v2 @ v3 @ v4 @ v5 in
          Inr \<lparr>is_compliant = (length vs = 0),
               violations = vs,
               checked_at = now,
               billboard_id = str_int (id_num b)\<rparr>))))))"
  by (simp add: check_billboard_compliance_body_def bind_err_def)

lemma filter_none_applicable:
  "\<forall>(z, r)\<in>set xs. \<not> P r \<Longrightarrow> filter P (map snd xs) = []"
  by (induction xs) auto

lemma at_most_one_under_key:
  "distinct (map fst xs) \<Longrightarrow> \<forall>(z, r)\<in>set xs. P r \<longrightarrow> z = zone \<Longrightarrow>
     length (filter P (map snd xs)) \<le> 1"
proof (induction xs)
  case Nil
  then show ?case by simp
next
  case (Cons x xs)
  obtain k v where x: "x = (k, v)" by (cases x)
  show ?case
  proof (cases "P v")
    case True
    then have "k = zone" using Cons.prems(2) x by simp
    then have "\<forall>(z, r)\<in>set xs. \<not> P r"
      using Cons.prems x by force
    then have "filter P (map snd xs) = []" by (rule filter_none_applicable)
    then show ?thesis using x by simp
  next
    case False
    then show ?thesis using Cons x by simp
  qed
qed

lemma check_administrative_same_side:
  assumes "\<And>d. permit_expiry_date b = Some d \<Longrightarrow> (d < dt_date now1) = (d < dt_date now2)"
  shows "check_administrative b now1 rules = check_administrative b now2 rules"
  using assms by (cases "permit_expiry_date b") (simp_all add: check_administrative_outcome)

lemma body_same_side:
  assumes "\<And>d. permit_expiry_date b = Some d \<Longrightarrow> (d < dt_date now1) = (d < dt_date now2)"
  shows "map_sum id (\<lambda>r. r\<lparr>checked_at := t\<rparr>) (check_billboard_compliance_body cfg b rd now1) =
         map_sum id (\<lambda>r. r\<lparr>checked_at := t\<rparr>) (check_billboard_compliance_body cfg b rd now2)"
proof (cases "ZoneType_call (lower (zone_type b))")
  case (Inl e)
  then show ?thesis by (simp add: body_zone_raises)
next
  case zone: (Inr zone)
  show ?thesis
  proof (cases "BillboardType_call (lower (billboard_type b))")
    case (Inl e)
    with zone show ?thesis by (simp add: body_type_raises)
  next
    case (Inr btype)
    have "check_administrative b now1 (administrative_rules (get_applicable_rules cfg zone btype)) =
          check_administrative b now2 (administrative_rules (get_applicable_rules cfg zone btype))"
      using assms by (rule check_administrative_same_side)
    then show ?thesis
      unfolding body_with_rules [OF zone Inr] Let_def
      by (simp add: bind_err_def split: sum.splits)
  qed
qed

lemma lower_ZoneType_value: "lower (ZoneType_value zone) = ZoneType_value zone"
  by (cases zone; simp; code_simp)

lemma lower_BillboardType_value: "lower (BillboardType_value btype) = BillboardType_value btype"
  by (cases btype; simp; code_simp)

lemma ZoneType_call_value: "ZoneType_call (ZoneType_value zone) = Inr zone"
  by (cases zone) (simp_all add: ZoneType_call_def ZoneType_members_def)

lemma BillboardType_call_value: "BillboardType_call (BillboardType_value btype) = Inr btype"
  by (cases btype) (simp_all add: BillboardType_call_def BillboardType_members_def)

lemma check_size_ignores_classification:
  "check_size (b\<lparr>zone_type := z, billboard_type := t\<rparr>) rules = check_size b rules"
proof -
  have "check_size_rule (b\<lparr>zone_type := z, billboard_type := t\<rparr>) = check_size_rule b"
    by (intro ext) (simp add: check_size_rule_def)
  then show ?thesis by (simp add: check_size_def)
qed

lemma check_safety_ignores_classification:
  "check_safety (b\<lparr>zone_type := z, billboard_type := t\<rparr>) rules = check_safety b rules"
  by (simp add: check_safety_outcome)

lemma check_administrative_ignores_classification:
  "check_administrative (b\<lparr>zone_type := z, billboard_type := t\<rparr>) now rules =
     check_administrative b now rules"
  by (simp add: check_administrative_outcome)

lemma body_by_classification:
  "check_billboard_compliance_body cfg (b\<lparr>zone_type := z, billboard_type := t\<rparr>) rd now =
     bind_err (ZoneType_call (lower z)) (\<lambda>zone.
     bind_err (BillboardType_call (lower t)) (\<lambda>btype.
       let rules = get_applicable_rules cfg zone btype in
       bind_err (check_size b (size_rules rules)) (\<lambda>v1.
       bind_err (check_location b rd (location_rules rules)) (\<lambda>v2.
       bind_err (check_content b rd (content_rules rules)) (\<lambda>v3.
       bind_err (check_safety b (safety_rules rules)) (\<lambda>v4.
       bind_err (check_administrative b now (administrative_rules rules)) (\<lambda>v5.
         let vs = v1 @ v2 @ v3 @ v4 @ v5 in
         Inr \<lparr>is_compliant = (length vs = 0),
              violations = vs,
              checked_at = now,
              billboard_id = str_int (id_num b)\<rparr>)))))))"
  by (simp add: check_billboard_compliance_body_def check_size_ignores_classification
      check_safety_ignores_classification check_administrative_ignores_classification
      check_location_def check_content_def)

lemma for_each_invariant:
  assumes "\<And>x s s'. x \<in> set xs \<Longrightarrow> P s \<Longrightarrow> body x s = Inr s' \<Longrightarrow> P s'"
    and "P s" and "for_each body xs s = Inr s'"
  shows "P s'"
  using assms
proof (induction xs arbitrary: s)
  case Nil
  then show ?case by simp
next
  case (Cons x xs)
  from Cons.prems(3) obtain s1 where s1: "body x s = Inr s1" and r: "for_each body xs s1 = Inr s'"
    by (auto split: sum.splits)
  have s1P: "P s1" using Cons.prems(1) [of x s s1] Cons.prems(2) s1 by simp
  show ?case
  proof (rule Cons.IH [of s1])
    fix y t t'
    assume "y \<in> set xs" "P t" "body y t = Inr t'"
    then show "P t'" using Cons.prems(1) [of y t t'] by simp
  next
    show "P s1" by (rule s1P)
  next
    show "for_each body xs s1 = Inr s'" by (rule r)
  qed
qed

lemma check_location_without_entry:
  assumes "map_of report_data ''location'' = None"
  shows "check_location b report_data rules = Inr []"
proof -
  have "for_each (check_location_rule report_data) rules [] =
      Inr ([] @ concat (map (\<lambda>rule. []) rules))"
    using assms by (intro for_each_appends) (simp add: check_location_rule_no_location)
  then show ?thesis by (simp add: check_location_def)
qed

lemma v_type_violation_dict: "v_type (violation_dict rule t m) = t"
  by (simp add: violation_dict_def)

lemma check_content_tag_types:
  "check_content_tag content rule p vs = Inr vs' \<Longrightarrow>
   list_all (\<lambda>v. v_type v = CONTENT_VIOLATION) vs \<Longrightarrow>
     list_all (\<lambda>v. v_type v = CONTENT_VIOLATION) vs'"
  by (auto simp: check_content_tag_def bind_err_def append_violation_content
      v_type_violation_dict split: sum.splits if_splits)

lemma check_content_rule_types:
  "check_content_rule content rule vs = Inr vs' \<Longrightarrow>
   list_all (\<lambda>v. v_type v = CONTENT_VIOLATION) vs \<Longrightarrow>
     list_all (\<lambda>v. v_type v = CONTENT_VIOLATION) vs'"
  unfolding check_content_rule_def
  by (rule for_each_invariant [where P = "list_all (\<lambda>v. v_type v = CONTENT_VIOLATION)"])
    (auto intro: check_content_tag_types)

lemma check_content_types:
  assumes "check_content b rd rules = Inr vs"
  shows "list_all (\<lambda>v. v_type v = CONTENT_VIOLATION) vs"
proof (cases "map_of rd ''content_analysis''")
  case None
  with assms show ?thesis by (simp add: check_content_def)
next
  case (Some content)
  with assms have "for_each (check_content_rule content) rules [] = Inr vs"
    by (simp add: check_content_def)
  then show ?thesis
    by (rule for_each_invariant [where P = "list_all (\<lambda>v. v_type v = CONTENT_VIOLATION)",
          rotated 2]) (auto intro: check_content_rule_types)
qed

lemma check_size_types:
  assumes "check_size b rules = Inr vs"
  shows "list_all (\<lambda>v. v_type v = SIZE_VIOLATION) vs"
  using assms unfolding check_size_all
  by (auto simp: list_all_iff v_type_violation_dict)

lemma check_safety_returns_nothing: "check_safety b rules = Inr vs \<Longrightarrow> vs = []"
  by (simp add: check_safety_outcome split: if_splits)

lemma check_administrative_returns_nothing:
  "check_administrative b now rules = Inr vs \<Longrightarrow> vs = []"
  by (simp add: check_administrative_outcome split: if_splits)

lemma body_no_location_violation:
  assumes "map_of rd ''location'' = None"
    and "check_billboard_compliance_body cfg b rd now = Inr r"
  shows "list_all (\<lambda>v. v_type v \<noteq> LOCATION_VIOLATION) (violations r)"
proof -
  from assms(2) obtain zone where zone: "ZoneType_call (lower (zone_type b)) = Inr zone"
    by (cases "ZoneType_call (lower (zone_type b))") (simp_all add: body_zone_raises)
  from assms(2) zone obtain btype where
    btype: "BillboardType_call (lower (billboard_type b)) = Inr btype"
    by (cases "BillboardType_call (lower (billboard_type b))") (simp_all add: body_type_raises)
  define rules where "rules = get_applicable_rules cfg zone btype"
  have loc: "check_location b rd (location_rules rules) = Inr []"
    using assms(1) by (rule check_location_without_entry)
  from assms(2) obtain v1 v3 v4 v5 where
    "check_size b (size_rules rules) = Inr v1"
    "check_content b rd (content_rules rules) = Inr v3"
    "check_safety b (safety_rules rules) = Inr v4"
    "check_administrative b now (administrative_rules rules) = Inr v5"
    "violations r = v1 @ [] @ v3 @ v4 @ v5"
    unfolding body_with_rules [OF zone btype] rules_def [symmetric] Let_def
    by (auto simp: bind_err_def loc split: sum.splits)
  then show ?thesis
    using check_size_types [of b "size_rules rules" v1]
      check_content_types [of b rd "content_rules rules" v3]
      check_safety_returns_nothing [of b "safety_rules rules" v4]
      check_administrative_returns_nothing [of b now "administrative_rules rules" v5]
    by (auto simp: list_all_iff)
qed

subsection \<open>The violation classifier\<close>

text \<open>
  C1. The classifier maps a size rule to \<open>SIZE_VIOLATION\<close>, a location rule to
  \<open>LOCATION_VIOLATION\<close> and a content rule to \<open>CONTENT_VIOLATION\<close>. For a safety rule
  it reads \<^verbatim>\<open>ViolationType.SAFETY_VIOLATION\<close> and for an administrative rule
  \<^verbatim>\<open>ViolationType.ADMINISTRATIVE_VIOLATION\<close>; the enumeration has neither member, so
  both reads raise \<open>AttributeError\<close> and the classifier returns no tag for these rules.
\<close>

theorem map_rule_to_violation_type_by_class:
  "map_rule_to_violation_type (SizeRestriction r1) = Inr SIZE_VIOLATION
   \<and> map_rule_to_violation_type (LocationRestriction r2) = Inr LOCATION_VIOLATION
   \<and> map_rule_to_violation_type (ContentRestriction r3) = Inr CONTENT_VIOLATION
   \<and> map_rule_to_violation_type (SafetyRequirement r4) =
       Inl (AttributeError ''SAFETY_VIOLATION'')
   \<and> map_rule_to_violation_type (AdministrativeRequirement r5) =
       Inl (AttributeError ''ADMINISTRATIVE_VIOLATION'')"
  by (simp add: violation_type_of_size violation_type_of_location violation_type_of_content
      violation_type_of_safety violation_type_of_administrative)

subsection \<open>The size check\<close>

text \<open>
  C5. For every billboard and every list of size rules, the size check returns, rule
  after rule, one violation for each of the three conditions that holds: the width
  exceeds the maximum width, the height exceeds the maximum height, the product of
  width and height exceeds the maximum area. Width 15 and height 3 against the maxima
  12, 4 and 48 give the single violation "Width exceeds maximum allowed"; width 13 and
  height 5 against the same rule give three violations, in the order width, height, area.
\<close>

theorem check_size_one_violation_per_exceeded_condition:
  "check_size b rules =
     Inr (concat (map (\<lambda>rule. map (violation_dict (SizeRestriction rule) SIZE_VIOLATION)
       ((if width_meters b > max_width_meters rule
         then [''Width exceeds maximum allowed''] else []) @
        (if height_meters b > max_height_meters rule
         then [''Height exceeds maximum allowed''] else []) @
        (if width_meters b * height_meters b > max_area_sqm rule
         then [''Area exceeds maximum allowed''] else []))) rules))
   \<and> check_size (b1\<lparr>width_meters := 15 :: 'a :: linordered_idom, height_meters := 3\<rparr>)
        [r1\<lparr>max_width_meters := 12, max_height_meters := 4, max_area_sqm := 48\<rparr>] =
      Inr [violation_dict
             (SizeRestriction
                (r1\<lparr>max_width_meters := 12, max_height_meters := 4, max_area_sqm := 48\<rparr>))
             SIZE_VIOLATION ''Width exceeds maximum allowed'']
   \<and> check_size (b1\<lparr>width_meters := 13, height_meters := 5\<rparr>)
        [r1\<lparr>max_width_meters := 12, max_height_meters := 4, max_area_sqm := 48\<rparr>] =
      Inr (map (violation_dict
             (SizeRestriction
                (r1\<lparr>max_width_meters := 12, max_height_meters := 4, max_area_sqm := 48\<rparr>))
             SIZE_VIOLATION)
           [''Width exceeds maximum allowed'', ''Height exceeds maximum allowed'',
            ''Area exceeds maximum allowed''])"
  by (simp add: check_size_all)
subsection \<open>Exceptions raised by a category check\<close>

text \<open>
  C2 (as the code has it). For every evaluation call with a recognised zone and
  billboard type, an exception raised by the check of one category is written to the
  log and raised again: the evaluation fails with an exception that a category check
  raised, the log holds exactly that exception, and no result is returned. The source
  has one \<^verbatim>\<open>try\<close> block around the whole evaluation and no handler per category.
\<close>

theorem category_exception_is_logged_and_reraised:
  assumes "ZoneType_call (lower (zone_type b)) = Inr zone"
    and "BillboardType_call (lower (billboard_type b)) = Inr btype"
    and "rules = get_applicable_rules cfg zone btype"
    and "check_size b (size_rules rules) = Inl e \<or>
         check_location b rd (location_rules rules) = Inl e \<or>
         check_content b rd (content_rules rules) = Inl e \<or>
         check_safety b (safety_rules rules) = Inl e \<or>
         check_administrative b now (administrative_rules rules) = Inl e"
  shows "\<exists>e'. check_billboard_compliance cfg b rd now =
             ([Compliance_check_failed e'], Inl e') \<and>
           (check_size b (size_rules rules) = Inl e' \<or>
            check_location b rd (location_rules rules) = Inl e' \<or>
            check_content b rd (content_rules rules) = Inl e' \<or>
            check_safety b (safety_rules rules) = Inl e' \<or>
            check_administrative b now (administrative_rules rules) = Inl e')"
proof -
  have "\<exists>e'. check_billboard_compliance_body cfg b rd now = Inl e' \<and>
           (check_size b (size_rules rules) = Inl e' \<or>
            check_location b rd (location_rules rules) = Inl e' \<or>
            check_content b rd (content_rules rules) = Inl e' \<or>
            check_safety b (safety_rules rules) = Inl e' \<or>
            check_administrative b now (administrative_rules rules) = Inl e')"
    using assms(4) unfolding body_with_rules [OF assms(1,2)] assms(3) [symmetric] Let_def
    by (auto simp: bind_err_def split: sum.splits)
  then show ?thesis
    using compliance_of_body_raise by blast
qed

text \<open>
  An industrial rooftop billboard without structural certificate, under the default
  configuration: the safety check raises and so does the evaluation.
\<close>

theorem category_exception_is_logged_and_reraised_witness:
  "ZoneType_call (lower (zone_type certificate_missing_billboard)) = Inr INDUSTRIAL
   \<and> BillboardType_call (lower (billboard_type certificate_missing_billboard)) = Inr ROOFTOP
   \<and> check_safety certificate_missing_billboard
        (safety_rules (get_applicable_rules load_default_config INDUSTRIAL ROOFTOP)) =
      Inl (AttributeError ''SAFETY_VIOLATION'')
   \<and> (\<exists>e'. check_billboard_compliance load_default_config certificate_missing_billboard []
               new_year_2024 =
             ([Compliance_check_failed e'], Inl e'))"
proof -
  have z: "ZoneType_call (lower (zone_type certificate_missing_billboard)) = Inr INDUSTRIAL"
    by code_simp
  have t: "BillboardType_call (lower (billboard_type certificate_missing_billboard)) = Inr ROOFTOP"
    by code_simp
  have s: "check_safety certificate_missing_billboard
        (safety_rules (get_applicable_rules load_default_config INDUSTRIAL ROOFTOP)) =
      Inl (AttributeError ''SAFETY_VIOLATION'')"
    by code_simp
  show ?thesis
    using z t s
      category_exception_is_logged_and_reraised [OF z t refl, of load_default_config
        "AttributeError ''SAFETY_VIOLATION''" "[]" new_year_2024]
    by blast
qed

text \<open>
  The claim as the specification states it fails: a report context whose
  \<^verbatim>\<open>location\<close> entry is a string, not a dictionary, makes the location check raise,
  and the evaluation of a commercial unipole then returns no result.
\<close>

theorem category_exception_fails_evaluation:
  "ZoneType_call (lower (zone_type unipole_billboard)) = Inr COMMERCIAL
   \<and> BillboardType_call (lower (billboard_type unipole_billboard)) = Inr UNIPOLES
   \<and> check_location unipole_billboard [(''location'', PStr ''junction 4'')]
        (location_rules (get_applicable_rules load_default_config COMMERCIAL UNIPOLES)) =
      Inl (AttributeError ''get'')
   \<and> check_billboard_compliance load_default_config unipole_billboard
        [(''location'', PStr ''junction 4'')] new_year_2024 =
      ([Compliance_check_failed (AttributeError ''get'')], Inl (AttributeError ''get''))"
  by code_simp

subsection \<open>Unrecognised zone or billboard type\<close>

text \<open>
  C3 (as the code has it). For every billboard whose zone string or billboard-type
  string, once put into lower case, is the value of no member of the respective
  enumeration, the evaluation fails with a \<open>ValueError\<close>, which is logged and raised to
  the caller: no result is returned, neither a compliant one nor a partial violation list.
\<close>

theorem unknown_classification_fails_evaluation:
  assumes "lower (zone_type b) \<notin> set (map ZoneType_value ZoneType_members) \<or>
           lower (billboard_type b) \<notin> set (map BillboardType_value BillboardType_members)"
  shows "\<exists>v c. check_billboard_compliance cfg b rd now =
           ([Compliance_check_failed (ValueError v c)], Inl (ValueError v c))"
proof (cases "ZoneType_call (lower (zone_type b))")
  case (Inl e)
  then have "e = ValueError (lower (zone_type b)) ''ZoneType''"
    by (rule ZoneType_call_raises)
  with Inl show ?thesis
    using compliance_of_body_raise [OF body_zone_raises] by blast
next
  case (Inr z)
  then have "lower (zone_type b) \<in> set (map ZoneType_value ZoneType_members)"
    using ZoneType_call_not_member by fastforce
  with assms have "BillboardType_call (lower (billboard_type b)) =
      Inl (ValueError (lower (billboard_type b)) ''BillboardType'')"
    by (simp add: BillboardType_call_not_member)
  with Inr show ?thesis
    using compliance_of_body_raise [OF body_type_raises] by blast
qed

theorem unknown_classification_fails_evaluation_witness:
  "lower (zone_type (kiosk_billboard\<lparr>zone_type := ''nowhere''\<rparr>)) \<notin>
     set (map ZoneType_value ZoneType_members)
   \<and> (\<exists>v c. check_billboard_compliance load_default_config
               (kiosk_billboard\<lparr>zone_type := ''nowhere''\<rparr>) [] new_year_2024 =
             ([Compliance_check_failed (ValueError v c)], Inl (ValueError v c)))"
proof -
  have z: "lower (zone_type (kiosk_billboard\<lparr>zone_type := ''nowhere''\<rparr>)) \<notin>
     set (map ZoneType_value ZoneType_members)"
    by code_simp
  show ?thesis
    using z unknown_classification_fails_evaluation [OF disjI1 [OF z], of load_default_config
        "[]" new_year_2024]
    by blast
qed

text \<open>
  The claim as the specification states it fails: the zone string \<open>COMMERCIAL\<close> and the
  type string \<open>Kiosk\<close> are values of no member of their enumerations, and the evaluation
  returns a result, with \<open>is_compliant\<close> true.
\<close>

theorem uppercase_zone_is_accepted:
  "zone_type kiosk_billboard \<notin> set (map ZoneType_value ZoneType_members)
   \<and> billboard_type kiosk_billboard \<notin> set (map BillboardType_value BillboardType_members)
   \<and> check_billboard_compliance load_default_config kiosk_billboard [] new_year_2024 =
      ([], Inr \<lparr>is_compliant = True, violations = [], checked_at = new_year_2024,
                billboard_id = ''7''\<rparr>)"
  by code_simp

subsection \<open>Selection of size rules\<close>

text \<open>
  C4 (as the code has it). The size category of the selection holds every value of the
  zone-keyed size mapping that is applicable; the keys are not consulted. When every
  size rule lists no zone but the one it is stored under, the size category holds at
  most one rule, for every zone and billboard type.
\<close>

theorem size_rules_at_most_one_when_keyed_by_own_zone:
  assumes "dict_keys_distinct (size_restrictions cfg)"
    and "list_all (\<lambda>(z, r). set (applicable_zones r) \<subseteq> {z}) (size_restrictions cfg)"
  shows "length (size_rules (get_applicable_rules cfg zone btype)) \<le> 1"
proof -
  have "\<forall>(z, r)\<in>set (size_restrictions cfg). is_applicable zone btype r \<longrightarrow> z = zone"
    using assms(2) by (auto simp: is_applicable_def list_all_iff)
  then have "length (filter (is_applicable zone btype)
      (map snd (size_restrictions cfg))) \<le> 1"
    using assms(1) unfolding dict_keys_distinct_def by (intro at_most_one_under_key)
  then show ?thesis by (simp add: get_applicable_rules_def)
qed

theorem size_rules_at_most_one_when_keyed_by_own_zone_witness:
  "dict_keys_distinct (size_restrictions (load_default_config :: rat compliance_config))
   \<and> list_all (\<lambda>(z, r). set (applicable_zones r) \<subseteq> {z})
       (size_restrictions (load_default_config :: rat compliance_config))
   \<and> length (size_rules (get_applicable_rules (load_default_config :: rat compliance_config)
         COMMERCIAL UNIPOLES)) \<le> 1"
proof -
  have d: "dict_keys_distinct (size_restrictions (load_default_config :: rat compliance_config))"
    by (simp add: dict_keys_distinct_def load_default_config_def)
  have k: "list_all (\<lambda>(z, r). set (applicable_zones r) \<subseteq> {z})
       (size_restrictions (load_default_config :: rat compliance_config))"
    by (simp add: load_default_config_def)
  show ?thesis
    using d k size_rules_at_most_one_when_keyed_by_own_zone [OF d k, of COMMERCIAL UNIPOLES]
    by simp
qed

text \<open>
  The claim as the specification states it fails: a mapping with one rule per zone key
  can select two size rules for one zone.
\<close>

theorem two_size_rules_for_one_zone:
  "dict_keys_distinct (size_restrictions overlapping_size_config)
   \<and> length (size_rules (get_applicable_rules overlapping_size_config COMMERCIAL UNIPOLES)) = 2"
  by code_simp

subsection \<open>The administrative check\<close>

text \<open>
  C6. What the administrative check does on the code: it returns the empty list when,
  for every rule, neither test fires (the rule requires a permit and the billboard has
  no permit number; the billboard has an expiry date earlier than today), and it raises
  \<open>AttributeError\<close> as soon as one of them fires, because the violation it then builds
  needs \<^verbatim>\<open>ViolationType.ADMINISTRATIVE_VIOLATION\<close>. No "Missing permit" and no
  "Permit expired" violation is ever returned.
\<close>

theorem check_administrative_raises_instead_of_reporting:
  "check_administrative b now rules =
     (if \<exists>rule\<in>set rules.
           requires_permit rule \<and> \<not> truthy (permit_number b) \<or>
           (case permit_expiry_date b of None \<Rightarrow> False | Some d \<Rightarrow> d < dt_date now)
      then Inl (AttributeError ''ADMINISTRATIVE_VIOLATION'') else Inr [])"
  by (rule check_administrative_outcome)

theorem check_administrative_raises_at_missing_permit:
  "requires_permit (hd (administrative_requirements (load_default_config :: rat compliance_config)))
   \<and> permit_number unipole_billboard = None
   \<and> check_administrative unipole_billboard new_year_2024
        (administrative_requirements load_default_config) =
      Inl (AttributeError ''ADMINISTRATIVE_VIOLATION'')"
  using check_administrative_raises_instead_of_reporting
      [of unipole_billboard new_year_2024 "administrative_requirements load_default_config"]
  by (simp add: load_default_config_def unipole_billboard_def truthy_def)

subsection \<open>The content check\<close>

text \<open>
  C7. For every report context whose \<^verbatim>\<open>content_analysis\<close> entry is a dictionary with a
  collection of detected tags, and every list of content rules, the content check
  returns, rule after rule, one violation for each entry of the rule's prohibited tags
  that is among the detected tags, with the message "Prohibited content: " followed by
  the tag. Detected content "hate_speech" against the prohibited tags "hate_speech" and
  "obscene" gives the single violation "Prohibited content: hate_speech".
\<close>

theorem check_content_one_violation_per_matched_tag:
  "(map_of report_data ''content_analysis'' = Some (PDict ca) \<and>
    map_of ca ''detected_content'' = Some (PList ds) \<longrightarrow>
      check_content b report_data rules =
        Inr (concat (map (\<lambda>rule.
          map (\<lambda>p. violation_dict (ContentRestriction rule :: 'n rule) CONTENT_VIOLATION
                     (''Prohibited content: '' @ p))
            (filter (\<lambda>p. PStr p \<in> set ds) (prohibited_content rule))) rules)))
   \<and> check_content b
        [(''content_analysis'', PDict [(''detected_content'', PList [PStr ''hate_speech''])])]
        [r\<lparr>prohibited_content := [''hate_speech'', ''obscene'']\<rparr>] =
      Inr [violation_dict
             (ContentRestriction (r\<lparr>prohibited_content := [''hate_speech'', ''obscene'']\<rparr>)
                :: 'n rule)
             CONTENT_VIOLATION ''Prohibited content: hate_speech'']"
  for b :: "'n billboard"
proof (intro conjI impI)
  assume "map_of report_data ''content_analysis'' = Some (PDict ca) \<and>
    map_of ca ''detected_content'' = Some (PList ds)"
  then show "check_content b report_data rules =
        Inr (concat (map (\<lambda>rule.
          map (\<lambda>p. violation_dict (ContentRestriction rule :: 'n rule) CONTENT_VIOLATION
                     (''Prohibited content: '' @ p))
            (filter (\<lambda>p. PStr p \<in> set ds) (prohibited_content rule))) rules))"
    by (simp add: check_content_listed)
next
  show "check_content b
        [(''content_analysis'', PDict [(''detected_content'', PList [PStr ''hate_speech''])])]
        [r\<lparr>prohibited_content := [''hate_speech'', ''obscene'']\<rparr>] =
      Inr [violation_dict
             (ContentRestriction (r\<lparr>prohibited_content := [''hate_speech'', ''obscene'']\<rparr>)
                :: 'n rule)
             CONTENT_VIOLATION ''Prohibited content: hate_speech'']"
    by (subst check_content_listed
          [where ca = "[(''detected_content'', PList [PStr ''hate_speech''])]"
            and ds = "[PStr ''hate_speech'']"]) simp_all
qed

theorem check_content_one_violation_per_matched_tag_witness:
  "map_of example_report_data ''content_analysis'' =
       Some (PDict [(''detected_content'', PList [PStr ''hate_speech''])])
   \<and> check_content unipole_billboard example_report_data
        (content_restrictions load_default_config) =
      Inr [violation_dict
             (ContentRestriction (hd (content_restrictions load_default_config)) :: rat rule)
             CONTENT_VIOLATION ''Prohibited content: hate_speech'']"
  using check_content_one_violation_per_matched_tag
      [where report_data = example_report_data
        and ca = "[(''detected_content'', PList [PStr ''hate_speech''])]"
        and ds = "[PStr ''hate_speech'']" and b = unipole_billboard
        and rules = "content_restrictions load_default_config"]
  by (simp add: example_report_data_def load_default_config_def)

subsection \<open>The location check\<close>

text \<open>
  C8. For every billboard and every list of location rules: when the report context has
  no \<^verbatim>\<open>location\<close> entry the location check returns no violation, whatever the rules;
  when it has one, a dictionary holding the measured distance from the intersection,
  the check returns one violation "Too close to intersection" for each rule whose
  minimum distance the measured distance is strictly below, and none for the other
  rules; when the dictionary holds no measured distance it returns no violation.
  Moreover the result of a whole evaluation on a report context without \<^verbatim>\<open>location\<close>
  entry holds no violation of type \<open>LOCATION_VIOLATION\<close>.
\<close>

theorem check_location_only_with_location_entry:
  "(map_of report_data ''location'' = None \<longrightarrow> check_location b report_data rules = Inr [])
   \<and> (map_of report_data ''location'' = Some (PDict loc) \<and>
       map_of loc ''distance_from_intersection'' = Some (PNum d) \<longrightarrow>
         check_location b report_data rules =
           Inr (map (\<lambda>rule. violation_dict (LocationRestriction rule) LOCATION_VIOLATION
                               ''Too close to intersection'')
                  (filter (\<lambda>rule. d < min_distance_from_intersection rule) rules)))
   \<and> (map_of report_data ''location'' = Some (PDict loc) \<and>
       map_of loc ''distance_from_intersection'' = None \<longrightarrow>
         check_location b report_data rules = Inr [])
   \<and> (map_of report_data ''location'' = None \<and>
       snd (check_billboard_compliance cfg b report_data now) = Inr r \<longrightarrow>
         list_all (\<lambda>v. v_type v \<noteq> LOCATION_VIOLATION) (violations r))"
proof (intro conjI impI)
  assume "map_of report_data ''location'' = None"
  then show "check_location b report_data rules = Inr []"
    by (rule check_location_without_entry)
next
  assume h: "map_of report_data ''location'' = None \<and>
       snd (check_billboard_compliance cfg b report_data now) = Inr r"
  then have "check_billboard_compliance_body cfg b report_data now = Inr r"
    by (auto simp: check_billboard_compliance_def split: sum.splits)
  moreover have "map_of report_data ''location'' = None"
    using h by simp
  ultimately show "list_all (\<lambda>v. v_type v \<noteq> LOCATION_VIOLATION) (violations r)"
    by (rule body_no_location_violation [rotated])
next
  assume h: "map_of report_data ''location'' = Some (PDict loc) \<and>
       map_of loc ''distance_from_intersection'' = Some (PNum d)"
  have "for_each (check_location_rule report_data) rules [] =
      Inr ([] @ concat (map (\<lambda>rule. if d < min_distance_from_intersection rule
                  then [violation_dict (LocationRestriction rule) LOCATION_VIOLATION
                          ''Too close to intersection'']
                  else []) rules))"
    using h by (intro for_each_appends) (simp add: check_location_rule_measured)
  then show "check_location b report_data rules =
           Inr (map (\<lambda>rule. violation_dict (LocationRestriction rule) LOCATION_VIOLATION
                               ''Too close to intersection'')
                  (filter (\<lambda>rule. d < min_distance_from_intersection rule) rules))"
    by (simp add: check_location_def concat_map_if_filter)
next
  assume "map_of report_data ''location'' = Some (PDict loc) \<and>
       map_of loc ''distance_from_intersection'' = None"
  then show "check_location b report_data rules = Inr []"
    by (simp add: check_location_unmeasured)
qed

theorem check_location_only_with_location_entry_witness:
  "map_of ([] :: rat report_data) ''location'' = None
   \<and> check_location unipole_billboard [] (location_restrictions load_default_config) = Inr []
   \<and> map_of example_report_data ''location'' =
       Some (PDict [(''distance_from_intersection'', PNum 10)])
   \<and> check_location unipole_billboard example_report_data
        (location_restrictions load_default_config) =
      Inr [violation_dict
             (LocationRestriction (hd (location_restrictions load_default_config)) :: rat rule)
             LOCATION_VIOLATION ''Too close to intersection'']
   \<and> snd (check_billboard_compliance load_default_config kiosk_billboard [] new_year_2024) =
       Inr \<lparr>is_compliant = True, violations = [], checked_at = new_year_2024,
            billboard_id = ''7''\<rparr>"
proof -
  have e: "snd (check_billboard_compliance load_default_config kiosk_billboard [] new_year_2024) =
       Inr \<lparr>is_compliant = True, violations = [], checked_at = new_year_2024,
            billboard_id = ''7''\<rparr>"
    by code_simp
  show ?thesis
    using e
      check_location_only_with_location_entry
        [where report_data = "[]" and b = unipole_billboard
          and rules = "location_restrictions load_default_config"]
      check_location_only_with_location_entry
        [where report_data = example_report_data
          and loc = "[(''distance_from_intersection'', PNum 10)]" and d = 10
          and b = unipole_billboard and rules = "location_restrictions load_default_config"]
    by (simp add: example_report_data_def load_default_config_def)
qed

subsection \<open>Dependence on the clock\<close>

text \<open>
  C9 (as the code has it). The outcome of an evaluation is determined by the
  configuration, the billboard, the report context and the clock reading, and it depends
  on the clock only through the test whether the permit expiry date is earlier than
  today and through \<open>checked_at\<close>. Two evaluations of the same configuration, billboard
  and report context, at instants for which that test has the same answer (any two
  instants when the billboard has no expiry date), write the same log and either raise
  the same exception or return results that are equal up to \<open>checked_at\<close>, so with
  identical violation lists.
\<close>

theorem evaluation_depends_on_clock_only_through_expiry:
  assumes "\<And>d. permit_expiry_date b = Some d \<Longrightarrow> (d < dt_date now1) = (d < dt_date now2)"
  shows "fst (check_billboard_compliance cfg b rd now1) =
           fst (check_billboard_compliance cfg b rd now2)
       \<and> map_sum id (\<lambda>r. r\<lparr>checked_at := t\<rparr>) (snd (check_billboard_compliance cfg b rd now1)) =
         map_sum id (\<lambda>r. r\<lparr>checked_at := t\<rparr>) (snd (check_billboard_compliance cfg b rd now2))"
  using body_same_side [of b now1 now2 t cfg rd, OF assms]
  unfolding check_billboard_compliance_def
  by (auto split: sum.splits)

theorem evaluation_depends_on_clock_only_through_expiry_witness:
  "permit_expiry_date kiosk_billboard = Some 739067
   \<and> (739067 < dt_date new_year_2024) = (739067 < dt_date spring_2024)
   \<and> fst (check_billboard_compliance load_default_config kiosk_billboard [] new_year_2024) =
       fst (check_billboard_compliance load_default_config kiosk_billboard [] spring_2024)
   \<and> map_sum id (\<lambda>r. r\<lparr>checked_at := new_year_2024\<rparr>)
         (snd (check_billboard_compliance load_default_config kiosk_billboard [] new_year_2024)) =
       map_sum id (\<lambda>r. r\<lparr>checked_at := new_year_2024\<rparr>)
         (snd (check_billboard_compliance load_default_config kiosk_billboard [] spring_2024))"
  using evaluation_depends_on_clock_only_through_expiry
      [of kiosk_billboard new_year_2024 spring_2024 load_default_config "[]" new_year_2024]
  by (simp add: kiosk_billboard_def new_year_2024_def spring_2024_def)

text \<open>
  The claim as the specification states it fails: the same configuration, billboard and
  report context give a compliant result on 2024-01-01 and no result on 2024-07-01, the
  day after the permit expiry date.
\<close>

theorem evaluation_differs_across_expiry_date:
  "check_billboard_compliance load_default_config kiosk_billboard [] new_year_2024 =
     ([], Inr \<lparr>is_compliant = True, violations = [], checked_at = new_year_2024,
               billboard_id = ''7''\<rparr>)
   \<and> check_billboard_compliance load_default_config kiosk_billboard [] july_2024 =
     ([Compliance_check_failed (AttributeError ''ADMINISTRATIVE_VIOLATION'')],
      Inl (AttributeError ''ADMINISTRATIVE_VIOLATION''))"
  by code_simp

subsection \<open>Case-insensitive classification\<close>

text \<open>
  C10. For every billboard whose zone string and billboard-type string become, in lower
  case, the values of a zone and of a billboard type, both strings are accepted and the
  evaluation returns what it returns for the billboard that carries the two values
  themselves.
\<close>

theorem classification_is_case_insensitive:
  assumes "lower z' = ZoneType_value zone" and "lower t' = BillboardType_value btype"
  shows "ZoneType_call (lower z') = Inr zone \<and> BillboardType_call (lower t') = Inr btype
       \<and> check_billboard_compliance cfg (b\<lparr>zone_type := z', billboard_type := t'\<rparr>) rd now =
         check_billboard_compliance cfg
           (b\<lparr>zone_type := ZoneType_value zone, billboard_type := BillboardType_value btype\<rparr>)
           rd now"
  using assms
  by (simp add: check_billboard_compliance_def body_by_classification lower_ZoneType_value
      lower_BillboardType_value ZoneType_call_value BillboardType_call_value)

theorem classification_is_case_insensitive_witness:
  "lower ''COMMERCIAL'' = ZoneType_value COMMERCIAL
   \<and> lower ''Kiosk'' = BillboardType_value KIOSK
   \<and> check_billboard_compliance load_default_config
        (kiosk_billboard\<lparr>zone_type := ''COMMERCIAL'', billboard_type := ''Kiosk''\<rparr>) []
        new_year_2024 =
      check_billboard_compliance load_default_config
        (kiosk_billboard\<lparr>zone_type := ''commercial'', billboard_type := ''kiosk''\<rparr>) []
        new_year_2024"
proof -
  have z: "lower ''COMMERCIAL'' = ZoneType_value COMMERCIAL" by code_simp
  have t: "lower ''Kiosk'' = BillboardType_value KIOSK" by code_simp
  show ?thesis
    using z t
      classification_is_case_insensitive [OF z t, of load_default_config kiosk_billboard "[]"
        new_year_2024]
    by simp
qed

end
